theory Spec2Isabelle
  imports Main "HOL-Library.AList"
begin

section \<open>JavaScript values\<close>

text \<open>
  The repository trait \<open>FirestoreRepository\<close> works on untyped JavaScript values.
  Numbers are the integers together with \<open>NaN\<close>: every number the modelled code
  computes on is an epoch-millisecond count, a seconds or nanoseconds count, a length or
  an ordinal, and the arithmetic on them (\<open>Math.floor (ms / 1000)\<close>, a remainder,
  a product with \<open>1000\<close> or \<open>1e6\<close>) is exact on integers. Range limits of the
  platform's date type are not part of the model.
\<close>

datatype number = Finite int | NaN

text \<open>
  The prototype of an object: a plain object literal, an instance of the entity classes
  \<open>Period\<close> or \<open>DatePeriod\<close> (with its \<open>constructor.name\<close>), an instance of an
  \<open>enumify\<close> enumeration class, or an instance of some other class (each with
  its \<open>constructor.name\<close>).
\<close>

datatype proto = Plain | PeriodInst string | EnumInst string | OtherInst string

text \<open>
  A function value is identified by a name of the model (\<open>fid\<close>) and carries its own
  properties: \<open>name\<close> and \<open>length\<close>, and for a class its static members (an
  enumeration class has \<open>enumValues\<close>, \<open>of\<close> and one member per value).
  An object carries its own enumerable data properties in enumeration order; inherited
  properties and accessors are not modelled.
\<close>

datatype fid = IdentityFn | UserFn nat

datatype val =
    VUndefined
  | VNull
  | VBool bool
  | VNum number
  | VStr string
  | VArr "val list"
  | VFun fid "(string \<times> val) list"
  | VTimestamp int int
  | VMoment number
  | VDate number
  | VObj proto "(string \<times> val) list"

type_synonym props = "(string \<times> val) list"

text \<open>Truthiness, as \<open>!it\<close>, \<open>a && b\<close> and \<open>a || b\<close> test it.\<close>

fun truthy :: "val \<Rightarrow> bool" where
  "truthy VUndefined = False"
| "truthy VNull = False"
| "truthy (VBool b) = b"
| "truthy (VNum (Finite n)) = (n \<noteq> 0)"
| "truthy (VNum NaN) = False"
| "truthy (VStr s) = (s \<noteq> [])"
| "truthy _ = True"

definition js_and :: "val \<Rightarrow> val \<Rightarrow> val" where
  "js_and a b = (if truthy a then b else a)"

definition js_or :: "val \<Rightarrow> val \<Rightarrow> val" where
  "js_or a b = (if truthy a then a else b)"

datatype jstype = TUndefined | TObject | TBoolean | TNumber | TString | TFunction

fun typeof :: "val \<Rightarrow> jstype" where
  "typeof VUndefined = TUndefined"
| "typeof VNull = TObject"
| "typeof (VBool _) = TBoolean"
| "typeof (VNum _) = TNumber"
| "typeof (VStr _) = TString"
| "typeof (VFun _ _) = TFunction"
| "typeof _ = TObject"

fun isArray :: "val \<Rightarrow> bool" where
  "isArray (VArr _) = True"
| "isArray _ = False"

text \<open>
  An array index written as a property key: a decimal numeral without a leading zero.
\<close>

definition digit_of :: "char \<Rightarrow> nat option" where
  "digit_of c = (let n = of_char c :: nat in if 48 \<le> n \<and> n \<le> 57 then Some (n - 48) else None)"

fun digits_value :: "nat \<Rightarrow> string \<Rightarrow> nat option" where
  "digits_value acc [] = Some acc"
| "digits_value acc (c # cs) =
     (case digit_of c of None \<Rightarrow> None | Some d \<Rightarrow> digits_value (10 * acc + d) cs)"

definition index_of_key :: "string \<Rightarrow> nat option" where
  "index_of_key k =
     (if k = [] then None
      else if hd k = CHR ''0'' \<and> tl k \<noteq> [] then None
      else digits_value 0 k)"

definition lookup :: "props \<Rightarrow> string \<Rightarrow> val" where
  "lookup ps k = (case map_of ps k of None \<Rightarrow> VUndefined | Some v \<Rightarrow> v)"

text \<open>
  The own properties of a value: the fields of an object, the properties of a function,
  \<open>length\<close> and the elements of an array or string, and the counts
  \<open>_seconds\<close> and \<open>_nanoseconds\<close> of a storage timestamp. \<open>None\<close> when
  the value has no own property of that name.
\<close>

fun own_prop :: "val \<Rightarrow> string \<Rightarrow> val option" where
  "own_prop (VObj _ ps) k = map_of ps k"
| "own_prop (VFun _ ps) k = map_of ps k"
| "own_prop (VArr xs) k =
     (if k = ''length'' then Some (VNum (Finite (int (length xs))))
      else (case index_of_key k of
              None \<Rightarrow> None
            | Some i \<Rightarrow> if i < length xs then Some (xs ! i) else None))"
| "own_prop (VStr s) k =
     (if k = ''length'' then Some (VNum (Finite (int (length s))))
      else (case index_of_key k of
              None \<Rightarrow> None
            | Some i \<Rightarrow> if i < length s then Some (VStr [s ! i]) else None))"
| "own_prop (VTimestamp s n) k =
     (if k = ''_seconds'' then Some (VNum (Finite s))
      else if k = ''_nanoseconds'' then Some (VNum (Finite n))
      else None)"
| "own_prop _ k = None"

definition own_value :: "val \<Rightarrow> string \<Rightarrow> val" where
  "own_value v k = (case own_prop v k of None \<Rightarrow> VUndefined | Some x \<Rightarrow> x)"

section \<open>Growing arrays to a common length\<close>

text \<open>
  \<open>_getLargestArrayAmong (...arrays)\<close>: a \<open>reduce\<close> from \<open>undefined\<close> that keeps
  the accumulated array unless the next one is strictly longer. An argument is an array
  or absent (\<open>None\<close>).
\<close>

definition largest_step :: "val list option \<Rightarrow> val list option \<Rightarrow> val list option" where
  "largest_step accum next' =
     (case accum of
        Some a \<Rightarrow>
          (case next' of
             Some n \<Rightarrow> if length a \<ge> length n then Some a else Some n
           | None \<Rightarrow> Some a)
      | None \<Rightarrow> (case next' of Some n \<Rightarrow> Some n | None \<Rightarrow> None))"

definition getLargestArrayAmong :: "val list option list \<Rightarrow> val list option" where
  "getLargestArrayAmong arrays = foldl largest_step None arrays"

text \<open>
  \<open>_growAllArraysToLargestAmong (...arrays)\<close> mutates each array in place; the model
  returns the arrays after the call, position by position. Assigning \<open>it.length\<close>
  cuts or extends the array, and \<open>it.fill (undefined, origLength)\<close> writes
  \<open>undefined\<close> from the original length on.
\<close>

definition grow_one :: "nat \<Rightarrow> val list \<Rightarrow> val list" where
  "grow_one len it = take len it @ replicate (len - length it) VUndefined"

definition growAllArraysToLargestAmong :: "val list option list \<Rightarrow> val list option list" where
  "growAllArraysToLargestAmong arrays =
     (if length arrays = 0 then arrays
      else (case map_option length (getLargestArrayAmong arrays) of
              None \<Rightarrow> arrays
            | Some len \<Rightarrow>
                if len = 0 then arrays
                else map (\<lambda>it. case it of None \<Rightarrow> None | Some a \<Rightarrow> Some (grow_one len a)) arrays))"

text \<open>The largest length among the arrays that are present (0 when there is none).\<close>

definition largest_length :: "val list option list \<Rightarrow> nat" where
  "largest_length arrays = foldr max (map length (List.map_filter id arrays)) 0"

definition olen :: "val list option \<Rightarrow> nat" where
  "olen acc = (case acc of None \<Rightarrow> 0 | Some a \<Rightarrow> length a)"

section \<open>Errors and external collaborators\<close>

text \<open>
  The error classes the module imports from the support library's \<open>errors\<close>
  export, and the errors of the platform and of the other libraries. A thrown error
  carries its class and the argument its constructor was given.
\<close>

datatype error_class =
    errors_ObjectNotFoundError
  | errors_ObjectExistsError
  | errors_IllegalArgumentError
  | errors_MethodNotImplementedError
  | TypeError
  | ExternalError

datatype error = Thrown error_class val

text \<open>The four \<open>const ... = require (...).errors. ...\<close> bindings at the top of the module.\<close>

definition ObjectNotFoundError :: error_class where
  "ObjectNotFoundError = errors_ObjectNotFoundError"

definition ObjectExistsError :: error_class where
  "ObjectExistsError = errors_ObjectNotFoundError"

definition IllegalArgumentError :: error_class where
  "IllegalArgumentError = errors_IllegalArgumentError"

definition MethodNotImplementedError :: error_class where
  "MethodNotImplementedError = errors_MethodNotImplementedError"

text \<open>
  What the trait takes from outside the repository's source, as parameters:
  the behaviour of the function values a caller supplies (\<open>call_user\<close>), the
  platform's conversions of a non-number to a number and of a non-string to a string,
  the date parser of \<open>moment.utc\<close> on values that are not numbers, moments or
  dates (its result as epoch milliseconds, \<open>NaN\<close> when invalid), the document a
  moment's internal fields would convert to, the \<open>_fromDocument\<close> override and the
  \<open>id\<close> accessor of the concrete repository's entity class, the identifier
  \<open>uuid ()\<close> draws, and the document store's \<open>set\<close>. The prototype chain of a
  value is outside too: \<open>inherited v k\<close> is what reading \<open>v[k]\<close> gives when
  \<open>v\<close> has no own property \<open>k\<close> (an inherited member such as
  \<open>Object.prototype.toString\<close>, the result of a getter, or \<open>undefined\<close>), and
  \<open>proto_set v k x\<close> is what assigning \<open>v[k] = x\<close> does when \<open>v\<close> has no own
  property \<open>k\<close>: \<open>None\<close> when the chain has nothing for \<open>k\<close>, so that an own
  property is created, and otherwise the error thrown, if any, with the object as the
  setter leaves it.
\<close>

record env =
  call_user :: "nat \<Rightarrow> val list \<Rightarrow> error + val"
  to_number :: "val \<Rightarrow> number"
  to_string :: "val \<Rightarrow> string"
  parse_moment :: "val \<Rightarrow> number"
  moment_document :: "number \<Rightarrow> error + val"
  fromDocument :: "val \<Rightarrow> error + val"
  entity_id :: "val \<Rightarrow> val"
  uuid :: "string"
  store_set :: "(string \<rightharpoonup> val) \<Rightarrow> string \<Rightarrow> val \<Rightarrow> val \<Rightarrow> error + (val \<times> (string \<rightharpoonup> val))"
  inherited :: "val \<Rightarrow> string \<Rightarrow> val"
  proto_set :: "val \<Rightarrow> string \<Rightarrow> val \<Rightarrow> (error option \<times> proto \<times> (string \<times> val) list) option"

text \<open>
  The property read \<open>v[k]\<close> on a value that is neither \<open>undefined\<close> nor \<open>null\<close>
  (the source guards every read of a possibly absent value with \<open>&&\<close> or \<open>?.\<close>):
  the own property if there is one, else what the prototype chain gives. Optional
  chaining \<open>v?.k\<close> is \<open>opt_get\<close>.
\<close>

definition get_prop :: "env \<Rightarrow> val \<Rightarrow> string \<Rightarrow> val" where
  "get_prop e v k = (case own_prop v k of Some x \<Rightarrow> x | None \<Rightarrow> inherited e v k)"

definition opt_get :: "env \<Rightarrow> val \<Rightarrow> string \<Rightarrow> val" where
  "opt_get e v k = (if v = VUndefined \<or> v = VNull then VUndefined else get_prop e v k)"

text \<open>Calling a value: the identity arrow function \<open>it => it\<close>, a caller's function, or a
  value that is not callable.\<close>

definition call :: "env \<Rightarrow> val \<Rightarrow> val list \<Rightarrow> error + val" where
  "call e f args =
     (case f of
        VFun IdentityFn _ \<Rightarrow> Inr (case args of [] \<Rightarrow> VUndefined | a # _ \<Rightarrow> a)
      | VFun (UserFn i) _ \<Rightarrow> call_user e i args
      | _ \<Rightarrow> Inl (Thrown TypeError (VStr ''not a function'')))"

text \<open>String conversion in a template literal and in \<open>Array.prototype.join\<close>.\<close>

definition template_str :: "env \<Rightarrow> val \<Rightarrow> string" where
  "template_str e v = (case v of VStr s \<Rightarrow> s | _ \<Rightarrow> to_string e v)"

definition join_item :: "env \<Rightarrow> val \<Rightarrow> string" where
  "join_item e v =
     (case v of VUndefined \<Rightarrow> [] | VNull \<Rightarrow> [] | VStr s \<Rightarrow> s | _ \<Rightarrow> to_string e v)"

fun join :: "string \<Rightarrow> string list \<Rightarrow> string" where
  "join sep [] = []"
| "join sep [x] = x"
| "join sep (x # y # ys) = x @ sep @ join sep (y # ys)"

section \<open>The time normalizer\<close>

text \<open>
  Modelled from the spec: the storage-native timestamp class \<open>Timestamp\<close> of the
  document store's client library, which is not part of the repository. The spec calls
  it "the document store's native time representation (seconds + nanoseconds since
  epoch)", constructed "from epoch millis", with no valid timestamp for a value such as
  \<open>NaN\<close>; its epoch milliseconds are a whole number, the "nanosecond remainder beyond
  millisecond granularity" being what does not come back. A timestamp is valid when
  both counts are integers and the nanoseconds count lies within one second.
\<close>

definition Timestamp_new :: "val \<Rightarrow> val \<Rightarrow> error + val" where
  "Timestamp_new s n =
     (case (s, n) of
        (VNum (Finite a), VNum (Finite b)) \<Rightarrow>
          if 0 \<le> b \<and> b \<le> 999999999 then Inr (VTimestamp a b)
          else Inl (Thrown ExternalError (VStr ''nanoseconds out of range''))
      | _ \<Rightarrow> Inl (Thrown ExternalError (VStr ''not an integer'')))"

definition Timestamp_fromMillis :: "env \<Rightarrow> val \<Rightarrow> error + val" where
  "Timestamp_fromMillis e milliseconds =
     (case (case milliseconds of VNum x \<Rightarrow> x | v \<Rightarrow> to_number e v) of
        NaN \<Rightarrow> Timestamp_new (VNum NaN) (VNum NaN)
      | Finite ms \<Rightarrow>
          (let seconds = ms div 1000;
               nanos = (ms - seconds * 1000) * 1000000
           in Timestamp_new (VNum (Finite seconds)) (VNum (Finite nanos))))"

definition Timestamp_toMillis :: "int \<Rightarrow> int \<Rightarrow> int" where
  "Timestamp_toMillis s n = s * 1000 + n div 1000000"

text \<open>
  \<open>_toTimestamp (it)\<close>: a timestamp, a moment or a date is first replaced by its
  epoch milliseconds; \<open>Timestamp.fromMillis\<close> then builds the result, and any failure
  of it is rethrown as an illegal-argument error.
\<close>

definition toTimestamp :: "env \<Rightarrow> val \<Rightarrow> error + val" where
  "toTimestamp e it0 =
     (let it = (case it0 of
                  VTimestamp s n \<Rightarrow> VNum (Finite (Timestamp_toMillis s n))
                | VMoment m \<Rightarrow> VNum m
                | VDate d \<Rightarrow> VNum d
                | _ \<Rightarrow> it0)
      in case Timestamp_fromMillis e it of
           Inl x \<Rightarrow> Inl (Thrown IllegalArgumentError (VObj Plain [(''msg'', it)]))
         | Inr ts \<Rightarrow> Inr ts)"

text \<open>\<open>_isTimestampLike (it, valueIfInstanceOf)\<close> and \<open>_fromTimestampDocument (plain)\<close>.\<close>

definition isTimestampLike :: "env \<Rightarrow> val \<Rightarrow> bool \<Rightarrow> bool" where
  "isTimestampLike e it valueIfInstanceOf =
     (case it of
        VTimestamp _ _ \<Rightarrow> valueIfInstanceOf
      | _ \<Rightarrow> typeof (opt_get e it ''_seconds'') = TNumber \<and>
              typeof (opt_get e it ''_nanoseconds'') = TNumber)"

definition fromTimestampDocument :: "env \<Rightarrow> val \<Rightarrow> error + val" where
  "fromTimestampDocument e plain =
     (if truthy plain
      then Timestamp_new (get_prop e plain ''_seconds'') (get_prop e plain ''_nanoseconds'')
      else Inr plain)"

text \<open>
  Modelled from the spec: \<open>moment.utc (it)\<close> of the date library, which is not part
  of the repository: "the general date-parsing path to a UTC Instant", which may
  produce "an invalid instant". The result is given by the epoch milliseconds of the
  moment (\<open>NaN\<close> for an invalid one): a number is taken as epoch milliseconds, a
  moment or a date keeps its instant, anything else goes through the library's parser.
\<close>

definition moment_utc :: "env \<Rightarrow> val \<Rightarrow> number" where
  "moment_utc e it =
     (case it of VNum n \<Rightarrow> n | VMoment m \<Rightarrow> m | VDate d \<Rightarrow> d | _ \<Rightarrow> parse_moment e it)"

definition toMoment :: "env \<Rightarrow> val \<Rightarrow> error + val" where
  "toMoment e it0 =
     (if \<not> truthy it0 then Inr it0
      else (case (if isTimestampLike e it0 False then fromTimestampDocument e it0 else Inr it0) of
              Inl x \<Rightarrow> Inl x
            | Inr it1 \<Rightarrow>
                (let it2 = (case it1 of
                              VTimestamp s n \<Rightarrow> VNum (Finite (Timestamp_toMillis s n))
                            | _ \<Rightarrow> it1);
                     m = moment_utc e it2
                 in if m = NaN then Inl (Thrown IllegalArgumentError it2)
                    else Inr (VMoment m))))"

section \<open>The tree and document converter\<close>

text \<open>
  \<open>_toTreeCustomizer\<close>: the value to substitute while cloning, \<open>undefined\<close> when
  the value is not converted.
\<close>

definition toTreeCustomizer :: "env \<Rightarrow> val \<Rightarrow> error + val" where
  "toTreeCustomizer e it =
     (case it of
        VObj (EnumInst c) ps \<Rightarrow> Inr (get_prop e it ''name'')
      | VMoment m \<Rightarrow> Timestamp_fromMillis e (VNum m)
      | VDate d \<Rightarrow> Timestamp_fromMillis e (VNum d)
      | VTimestamp s n \<Rightarrow> Inr it
      | _ \<Rightarrow> Inr VUndefined)"

text \<open>
  Modelled from the spec: \<open>cloneDeepWith\<close> of the utility library, which is not part
  of the repository. The spec has \<open>_toTree\<close> "deep-clone the entity graph,
  substituting during the clone": where the customizer returns a value other than
  \<open>undefined\<close> that value stands for the original; otherwise an array is cloned
  element by element and an object field by field, keeping its prototype; a nested
  function stays itself and a function at the top clones to an empty object (its static
  members are left out); every other value is its own clone.
\<close>

function cloneDeepWith :: "(val \<Rightarrow> error + val) \<Rightarrow> bool \<Rightarrow> val \<Rightarrow> error + val"
  and clone_default :: "(val \<Rightarrow> error + val) \<Rightarrow> bool \<Rightarrow> val \<Rightarrow> error + val"
  and clone_list :: "(val \<Rightarrow> error + val) \<Rightarrow> val list \<Rightarrow> error + val list"
  and clone_props :: "(val \<Rightarrow> error + val) \<Rightarrow> props \<Rightarrow> error + props"
where
  "cloneDeepWith c outer v =
     (case c v of
        Inl x \<Rightarrow> Inl x
      | Inr r \<Rightarrow> if r \<noteq> VUndefined then Inr r else clone_default c outer v)"
| "clone_default c outer (VArr xs) =
     (case clone_list c xs of Inl x \<Rightarrow> Inl x | Inr ys \<Rightarrow> Inr (VArr ys))"
| "clone_default c outer (VObj p ps) =
     (case clone_props c ps of Inl x \<Rightarrow> Inl x | Inr qs \<Rightarrow> Inr (VObj p qs))"
| "clone_default c outer (VFun f ps) = (if outer then Inr (VObj Plain []) else Inr (VFun f ps))"
| "clone_default c outer VUndefined = Inr VUndefined"
| "clone_default c outer VNull = Inr VNull"
| "clone_default c outer (VBool b) = Inr (VBool b)"
| "clone_default c outer (VNum n) = Inr (VNum n)"
| "clone_default c outer (VStr s) = Inr (VStr s)"
| "clone_default c outer (VTimestamp s n) = Inr (VTimestamp s n)"
| "clone_default c outer (VMoment m) = Inr (VMoment m)"
| "clone_default c outer (VDate d) = Inr (VDate d)"
| "clone_list c [] = Inr []"
| "clone_list c (x # xs) =
     (case cloneDeepWith c False x of
        Inl e \<Rightarrow> Inl e
      | Inr y \<Rightarrow> (case clone_list c xs of Inl e \<Rightarrow> Inl e | Inr ys \<Rightarrow> Inr (y # ys)))"
| "clone_props c [] = Inr []"
| "clone_props c (kv # ps) =
     (case cloneDeepWith c False (snd kv) of
        Inl e \<Rightarrow> Inl e
      | Inr y \<Rightarrow>
          (case clone_props c ps of Inl e \<Rightarrow> Inl e | Inr qs \<Rightarrow> Inr ((fst kv, y) # qs)))"
  by pat_completeness auto
termination
  by (relation "measure (\<lambda>x. case x of
          Inl (Inl (c, t, v)) \<Rightarrow> 2 * size v + 1
        | Inl (Inr (c, t, v)) \<Rightarrow> 2 * size v
        | Inr (Inl (c, xs)) \<Rightarrow> 2 * size_list size xs + 1
        | Inr (Inr (c, ps)) \<Rightarrow> 2 * size_list (\<lambda>p. Suc (size (snd p))) ps + 1)")
     (auto simp: size_prod_simp)

definition toTree :: "env \<Rightarrow> val \<Rightarrow> error + val" where
  "toTree e entity = cloneDeepWith (toTreeCustomizer e) True entity"

text \<open>\<open>period.constructor.name\<close> and its like.\<close>

fun constructor_name :: "val \<Rightarrow> string" where
  "constructor_name (VObj Plain _) = ''Object''"
| "constructor_name (VObj (PeriodInst c) _) = c"
| "constructor_name (VObj (EnumInst c) _) = c"
| "constructor_name (VObj (OtherInst c) _) = c"
| "constructor_name (VArr _) = ''Array''"
| "constructor_name (VFun _ _) = ''Function''"
| "constructor_name (VTimestamp _ _) = ''Timestamp''"
| "constructor_name (VMoment _) = ''Moment''"
| "constructor_name (VDate _) = ''Date''"
| "constructor_name (VStr _) = ''String''"
| "constructor_name (VNum _) = ''Number''"
| "constructor_name (VBool _) = ''Boolean''"
| "constructor_name _ = []"

text \<open>
  \<open>_toPeriodDocument (period)\<close>: the result object starts with \<open>_type\<close>;
  \<open>_begin\<close> and \<open>_end\<close> are assigned only under their \<open>if\<close>.
\<close>

definition and_then :: "val \<Rightarrow> (error + val) \<Rightarrow> error + val" where
  "and_then a b = (if truthy a then b else Inr a)"

definition toPeriodDocument :: "env \<Rightarrow> val \<Rightarrow> error + val" where
  "toPeriodDocument e period =
     (let result0 = [(''_type'', VStr (constructor_name period))];
          r1 = (if truthy (get_prop e period ''_begin'')
                then (case and_then (get_prop e period ''_begin'')
                             (toTimestamp e (get_prop e period ''_begin'')) of
                        Inl x \<Rightarrow> Inl x
                      | Inr b \<Rightarrow> Inr (AList.update ''_begin'' b result0))
                else Inr result0)
      in case r1 of
           Inl x \<Rightarrow> Inl x
         | Inr result1 \<Rightarrow>
             if truthy (get_prop e period ''_end'')
             then (case and_then (get_prop e period ''_end'')
                          (toTimestamp e (get_prop e period ''_end'')) of
                     Inl x \<Rightarrow> Inl x
                   | Inr en \<Rightarrow> Inr (VObj Plain (AList.update ''_end'' en result1)))
             else Inr (VObj Plain result1))"

text \<open>
  \<open>_toFirestoreDocument (it)\<close>. The object case keeps the fields whose value is
  neither a function nor \<open>undefined\<close> and converts each; \<open>Object.keys (null)\<close>
  throws; a date has no field of its own.
\<close>

function toFirestoreDocument :: "env \<Rightarrow> val \<Rightarrow> error + val"
  and document_list :: "env \<Rightarrow> val list \<Rightarrow> error + val list"
  and document_props :: "env \<Rightarrow> props \<Rightarrow> error + props"
where
  "toFirestoreDocument e (VFun f ps) =
     Inl (Thrown IllegalArgumentError (VStr ''functions cannot be converted to a Firestore document''))"
| "toFirestoreDocument e (VTimestamp s n) = Inr (VTimestamp s n)"
| "toFirestoreDocument e (VArr xs) =
     (case document_list e xs of Inl x \<Rightarrow> Inl x | Inr ys \<Rightarrow> Inr (VArr ys))"
| "toFirestoreDocument e (VObj (PeriodInst c) ps) = toPeriodDocument e (VObj (PeriodInst c) ps)"
| "toFirestoreDocument e (VObj Plain ps) =
     (case document_props e ps of Inl x \<Rightarrow> Inl x | Inr qs \<Rightarrow> Inr (VObj Plain qs))"
| "toFirestoreDocument e (VObj (EnumInst c) ps) =
     (case document_props e ps of Inl x \<Rightarrow> Inl x | Inr qs \<Rightarrow> Inr (VObj Plain qs))"
| "toFirestoreDocument e (VObj (OtherInst c) ps) =
     (case document_props e ps of Inl x \<Rightarrow> Inl x | Inr qs \<Rightarrow> Inr (VObj Plain qs))"
| "toFirestoreDocument e VNull = Inl (Thrown TypeError (VStr ''Cannot convert undefined or null to object''))"
| "toFirestoreDocument e (VDate d) = Inr (VObj Plain [])"
| "toFirestoreDocument e (VMoment m) = moment_document e m"
| "toFirestoreDocument e VUndefined = Inr VUndefined"
| "toFirestoreDocument e (VBool b) = Inr (VBool b)"
| "toFirestoreDocument e (VNum n) = Inr (VNum n)"
| "toFirestoreDocument e (VStr s) = Inr (VStr s)"
| "document_list e [] = Inr []"
| "document_list e (x # xs) =
     (case toFirestoreDocument e x of
        Inl err \<Rightarrow> Inl err
      | Inr y \<Rightarrow> (case document_list e xs of Inl err \<Rightarrow> Inl err | Inr ys \<Rightarrow> Inr (y # ys)))"
| "document_props e [] = Inr []"
| "document_props e (kv # ps) =
     (if typeof (snd kv) \<noteq> TFunction \<and> snd kv \<noteq> VUndefined
      then (case toFirestoreDocument e (snd kv) of
              Inl err \<Rightarrow> Inl err
            | Inr y \<Rightarrow>
                (case document_props e ps of
                   Inl err \<Rightarrow> Inl err
                 | Inr qs \<Rightarrow> Inr ((fst kv, y) # qs)))
      else document_props e ps)"
  by pat_completeness auto
termination
  by (relation "measure (\<lambda>x. case x of
          Inl (e, v) \<Rightarrow> 2 * size v
        | Inr (Inl (e, xs)) \<Rightarrow> 2 * size_list size xs + 1
        | Inr (Inr (e, ps)) \<Rightarrow> 2 * size_list (\<lambda>p. Suc (size (snd p))) ps + 1)")
     (auto simp: size_prod_simp)

definition toDocument :: "env \<Rightarrow> val \<Rightarrow> error + val" where
  "toDocument e entity =
     (case toTree e entity of Inl x \<Rightarrow> Inl x | Inr tree \<Rightarrow> toFirestoreDocument e tree)"

text \<open>
  Modelled from the spec: the entity class \<open>Period\<close> (and its \<open>DatePeriod\<close>
  variant), whose source file is not among the repository's files here. The spec has
  it "a composite with an optional begin and optional end, each an Instant"; the trait
  reads the two as the fields \<open>_begin\<close> and \<open>_end\<close> and the variant as
  \<open>constructor.name\<close>. An Instant is a valid moment, given by its epoch milliseconds;
  an end that is not set is \<open>undefined\<close>.
\<close>

definition instant_field :: "int option \<Rightarrow> val" where
  "instant_field t = (case t of None \<Rightarrow> VUndefined | Some ms \<Rightarrow> VMoment (Finite ms))"

definition Period :: "string \<Rightarrow> int option \<Rightarrow> int option \<Rightarrow> val" where
  "Period variant begin' end' =
     VObj (PeriodInst variant) [(''_begin'', instant_field begin'), (''_end'', instant_field end')]"

text \<open>The storage timestamp of an Instant given by its epoch milliseconds.\<close>

definition timestamp_of :: "int \<Rightarrow> val" where
  "timestamp_of ms = VTimestamp (ms div 1000) (ms mod 1000 * 1000000)"

section \<open>Repository operations\<close>

text \<open>
  An object that is written to: its prototype and its own properties. The assignment
  \<open>ob[k] = v\<close> updates an own property in place; without one it is up to the
  prototype chain: a setter runs (and may throw, or change other fields), or else a new
  own property is appended. The result is the error thrown, if any, and the object
  after the assignment.
\<close>

type_synonym obj = "proto \<times> props"

definition obj_val :: "obj \<Rightarrow> val" where
  "obj_val ob = VObj (fst ob) (snd ob)"

definition assign :: "env \<Rightarrow> obj \<Rightarrow> string \<Rightarrow> val \<Rightarrow> error option \<times> obj" where
  "assign e ob k v =
     (case map_of (snd ob) k of
        Some old \<Rightarrow> (None, fst ob, AList.update k v (snd ob))
      | None \<Rightarrow>
          (case proto_set e (obj_val ob) k v of
             None \<Rightarrow> (None, fst ob, AList.update k v (snd ob))
           | Some res \<Rightarrow> res))"

text \<open>
  The repository instance: \<open>_path\<close>, and the document store as the data of the
  document at each path where one exists. Reads of the store do not fail in the model;
  \<open>await\<close> is sequencing.
\<close>

record repo =
  r_path :: string
  r_docs :: "string \<rightharpoonup> val"

definition DEFAULT_SET_OPTIONS :: val where
  "DEFAULT_SET_OPTIONS = VObj Plain [(''merge'', VBool True)]"

definition setOptions :: val where
  "setOptions = DEFAULT_SET_OPTIONS"

definition translateError :: "error \<Rightarrow> error" where
  "translateError x = x"

definition tryAsync :: "error + 'a \<Rightarrow> error + 'a" where
  "tryAsync r = (case r of Inl x \<Rightarrow> Inl (translateError x) | Inr v \<Rightarrow> Inr v)"

definition docpath :: "env \<Rightarrow> repo \<Rightarrow> val list \<Rightarrow> string" where
  "docpath e r it = join ''/'' (r_path r # map (join_item e) it)"

definition findById :: "env \<Rightarrow> repo \<Rightarrow> val \<Rightarrow> error + val" where
  "findById e r ident =
     (if \<not> truthy ident then Inr VNull
      else tryAsync
        (case r_docs r (docpath e r [ident]) of
           None \<Rightarrow> Inr (VBool False)
         | Some plain \<Rightarrow>
             fromDocument e
               (VObj Plain [(''plain'', plain), (''setterPrefix'', VStr ''_''),
                            (''getterPrefix'', VStr ''_'')])))"

definition getById :: "env \<Rightarrow> repo \<Rightarrow> val \<Rightarrow> error + val" where
  "getById e r ident =
     (case findById e r ident of
        Inl x \<Rightarrow> Inl x
      | Inr it \<Rightarrow>
          if \<not> truthy it then Inl (Thrown ObjectNotFoundError (VStr (docpath e r [ident])))
          else Inr VUndefined)"

text \<open>
  \<open>upsert\<close> and \<open>insert\<close> return the outcome together with the entity and the
  repository as the call leaves them.
\<close>

definition upsert :: "env \<Rightarrow> repo \<Rightarrow> obj \<Rightarrow> val \<Rightarrow> (error + val) \<times> obj \<times> repo" where
  "upsert e r entity options =
     (case (if \<not> truthy (get_prop e (obj_val entity) ''_id'')
            then assign e entity ''_id'' (VStr (uuid e)) else (None, entity)) of
        (Some x, entity1) \<Rightarrow> (Inl x, entity1, r)
      | (None, entity1) \<Rightarrow>
          (case tryAsync
                 (case toDocument e (obj_val entity1) of
                    Inl x \<Rightarrow> Inl x
                  | Inr doc \<Rightarrow>
                      store_set e (r_docs r)
                        (docpath e r [get_prop e (obj_val entity1) ''_id'']) doc
                        (js_or options setOptions)) of
             Inl x \<Rightarrow> (Inl x, entity1, r)
           | Inr (res, docs1) \<Rightarrow> (Inr res, entity1, r\<lparr>r_docs := docs1\<rparr>)))"

definition insert :: "env \<Rightarrow> repo \<Rightarrow> obj \<Rightarrow> val \<Rightarrow> (error + val) \<times> obj \<times> repo" where
  "insert e r entity options =
     (case findById e r (entity_id e (obj_val entity)) of
        Inl x \<Rightarrow> (Inl x, entity, r)
      | Inr found \<Rightarrow>
          if truthy found
          then (Inl (Thrown ObjectExistsError
                      (VStr (constructor_name (obj_val entity) @ ''@'' @
                             template_str e (entity_id e (obj_val entity))))),
                entity, r)
          else upsert e r entity options)"

text \<open>The base trait's \<open>_fromDocument\<close>, which a concrete repository overrides.\<close>

definition fromDocument_base :: "val \<Rightarrow> error + val" where
  "fromDocument_base a =
     Inl (Thrown MethodNotImplementedError (VStr ''FirestoreRepository#_fromDocument''))"

section \<open>The generic property mapper\<close>

text \<open>
  \<open>_mapperCache\<close> holds, under each name, the closure \<open>_getMapper\<close> built over a
  conversion function; the closure is represented by that function, and
  \<open>apply_wrapped\<close> is its body.
\<close>

type_synonym cache = "(string \<times> val) list"

definition getMapper :: "env \<Rightarrow> cache \<Rightarrow> val \<Rightarrow> string \<Rightarrow> cache \<times> val" where
  "getMapper e c mapper name =
     (let name1 = (if name \<noteq> [] then name else template_str e (get_prop e mapper ''name''))
      in case map_of c name1 of
           Some cached \<Rightarrow> (c, cached)
         | None \<Rightarrow> (AList.update name1 mapper c, mapper))"

fun map_elems :: "env \<Rightarrow> val \<Rightarrow> val list \<Rightarrow> nat \<Rightarrow> val list \<Rightarrow> error + val list" where
  "map_elems e mapper whole i [] = Inr []"
| "map_elems e mapper whole i (x # xs) =
     (case call e mapper [x, VNum (Finite (int i)), VArr whole] of
        Inl err \<Rightarrow> Inl err
      | Inr y \<Rightarrow>
          (case map_elems e mapper whole (Suc i) xs of
             Inl err \<Rightarrow> Inl err
           | Inr ys \<Rightarrow> Inr (y # ys)))"

definition apply_wrapped :: "env \<Rightarrow> val \<Rightarrow> string \<Rightarrow> val \<Rightarrow> string \<Rightarrow> error + val" where
  "apply_wrapped e mapper key from_obj gp =
     (let value = get_prop e from_obj (gp @ key)
      in if value = VUndefined then Inr value
         else (case value of
                 VArr xs \<Rightarrow>
                   if typeof mapper \<noteq> TFunction
                   then Inl (Thrown TypeError (VStr ''not a function''))
                   else (case map_elems e mapper xs 0 xs of
                           Inl err \<Rightarrow> Inl err
                         | Inr ys \<Rightarrow> Inr (VArr ys))
               | _ \<Rightarrow> call e mapper [value]))"

text \<open>The arrow function \<open>it => it\<close> that \<open>_noOpMapper\<close> hands to \<open>_getMapper\<close>.\<close>

definition identity_fn :: val where
  "identity_fn = VFun IdentityFn [(''name'', VStr []), (''length'', VNum (Finite 1))]"

definition noOpMapper :: "env \<Rightarrow> cache \<Rightarrow> cache \<times> val" where
  "noOpMapper e c = getMapper e c identity_fn ''noop''"

definition toEnumMapper :: "env \<Rightarrow> cache \<Rightarrow> val \<Rightarrow> cache \<times> val" where
  "toEnumMapper e c enumeration =
     getMapper e c (get_prop e enumeration ''of'')
       (''enum:'' @ template_str e (get_prop e enumeration ''name''))"

text \<open>
  The converter of one key: a closure of the cache (\<open>Wrapped\<close> over its conversion
  function) or the caller's function itself (\<open>Direct\<close>).
\<close>

datatype mapper = Wrapped val | Direct val

text \<open>
  The first half of the reducer's body: \<open>map\<close> is what
  \<open>(mappers && mappers[key]) || mappers\<close> evaluates to, an ordinary property read
  included, then the enumeration test, then the function test. The result is the
  cache, the converter and \<open>e\<close>.
\<close>

definition candidate :: "env \<Rightarrow> val \<Rightarrow> string \<Rightarrow> val" where
  "candidate e mappers key = js_or (js_and mappers (get_prop e mappers key)) mappers"

definition looks_like_enum :: "env \<Rightarrow> val \<Rightarrow> bool" where
  "looks_like_enum e m =
     (isArray (opt_get e m ''enumValues'') \<and>
      typeof (get_prop e (opt_get e m ''enumValues'') ''0'') = TObject)"

definition resolve :: "env \<Rightarrow> cache \<Rightarrow> val \<Rightarrow> string \<Rightarrow> cache \<times> mapper \<times> val" where
  "resolve e c mappers key =
     (let map0 = candidate e mappers key
      in if looks_like_enum e map0
         then (case toEnumMapper e c map0 of (c1, m) \<Rightarrow> (c1, Wrapped m, map0))
         else if typeof map0 \<noteq> TFunction
         then (case noOpMapper e c of (c1, m) \<Rightarrow> (c1, Wrapped m, VUndefined))
         else (c, Direct map0, VUndefined))"

text \<open>
  The call \<open>map ({ key, from, getterPrefix, enumeration: e, to })\<close>: the argument
  object a caller's function receives; a closure of the cache takes \<open>key\<close>,
  \<open>from\<close> and \<open>getterPrefix\<close> out of it.
\<close>

definition mapper_args :: "string \<Rightarrow> val \<Rightarrow> string \<Rightarrow> val \<Rightarrow> val \<Rightarrow> val" where
  "mapper_args key from_obj gp en to_obj =
     VObj Plain [(''key'', VStr key), (''from'', from_obj), (''getterPrefix'', VStr gp),
                 (''enumeration'', en), (''to'', to_obj)]"

definition invoke :: "env \<Rightarrow> mapper \<Rightarrow> string \<Rightarrow> val \<Rightarrow> string \<Rightarrow> val \<Rightarrow> val \<Rightarrow> error + val" where
  "invoke e m key from_obj gp en to_obj =
     (case m of
        Wrapped f \<Rightarrow> apply_wrapped e f key from_obj gp
      | Direct f \<Rightarrow> call e f [mapper_args key from_obj gp en to_obj])"

text \<open>
  The reducer's body for one key, on the cache and the destination object. A converter
  that throws leaves both as they are at that moment; so does an assignment that
  throws, but for what its setter did.
\<close>

definition mapProps_step ::
  "env \<Rightarrow> obj \<Rightarrow> string \<Rightarrow> string \<Rightarrow> val \<Rightarrow> string \<Rightarrow> cache \<times> obj \<Rightarrow> error option \<times> cache \<times> obj" where
  "mapProps_step e from_obj sp gp mappers key st =
     (case st of (c, to_obj) \<Rightarrow>
        (case resolve e c mappers key of (c1, m, en) \<Rightarrow>
           (case invoke e m key (obj_val from_obj) gp en (obj_val to_obj) of
              Inl err \<Rightarrow> (Some err, c1, to_obj)
            | Inr value \<Rightarrow>
                if value \<noteq> VUndefined
                then (case assign e to_obj (sp @ key) value of (r, to1) \<Rightarrow> (r, c1, to1))
                else (None, c1, to_obj))))"

text \<open>\<open>keys.reduce\<close>: the keys from left to right, stopping at the first throw.\<close>

fun reduce_keys ::
  "(string \<Rightarrow> cache \<times> obj \<Rightarrow> error option \<times> cache \<times> obj) \<Rightarrow> string list \<Rightarrow> cache \<times> obj
     \<Rightarrow> error option \<times> cache \<times> obj" where
  "reduce_keys f [] st = (None, st)"
| "reduce_keys f (k # ks) st =
     (case f k st of
        (Some err, st1) \<Rightarrow> (Some err, st1)
      | (None, st1) \<Rightarrow> reduce_keys f ks st1)"

text \<open>
  The arguments of \<open>_mapProps\<close>. \<open>keys\<close> is absent, one key or a list of keys;
  an absent object or prefix is \<open>None\<close>. The result is the error thrown, if any,
  with the cache and the destination object as the call leaves them; without an error
  the destination object is the value returned.
\<close>

datatype keys_arg = KeysAbsent | OneKey string | KeyList "string list"

record mapProps_args =
  arg_keys :: keys_arg
  arg_from :: "obj option"
  arg_to :: "obj option"
  arg_setterPrefix :: "string option"
  arg_getterPrefix :: "string option"
  arg_mappers :: val

definition mapProps :: "env \<Rightarrow> cache \<Rightarrow> mapProps_args \<Rightarrow> error option \<times> cache \<times> obj" where
  "mapProps e c a =
     (let from_obj = (case arg_from a of None \<Rightarrow> (Plain, []) | Some f \<Rightarrow> f);
          to_obj = (case arg_to a of None \<Rightarrow> (Plain, []) | Some t \<Rightarrow> t);
          sp = (case arg_setterPrefix a of None \<Rightarrow> [] | Some s \<Rightarrow> s);
          gp = (case arg_getterPrefix a of None \<Rightarrow> [] | Some s \<Rightarrow> s);
          keys = (case arg_keys a of
                    KeysAbsent \<Rightarrow> map fst (snd from_obj)
                  | OneKey k \<Rightarrow> if k = [] then map fst (snd from_obj) else [k]
                  | KeyList ks \<Rightarrow> ks)
      in reduce_keys (mapProps_step e from_obj sp gp (arg_mappers a)) keys (c, to_obj))"

section \<open>A sample environment\<close>

text \<open>
  One concrete choice of the outside parameters, for evaluating the model on concrete
  inputs. Of the callers' functions, number 2 returns the string \<open>mapped-\<close> followed
  by the key it is called for, number 100 is \<open>Object.prototype.toString\<close> (called
  without a receiver), and the others throw. The platform conversions give \<open>NaN\<close>
  and \<open>?\<close>; \<open>_fromDocument\<close> rebuilds an entity that carries the stored \<open>_id\<close>;
  the store's \<open>set\<close> puts the document at its path. Every object inherits
  \<open>toString\<close>, and an instance of the class \<open>To\<close> has the accessor \<open>string\<close>
  whose setter stores into \<open>_string\<close> and whose getter reads it.
\<close>

definition arg_key :: "val list \<Rightarrow> string" where
  "arg_key args =
     (case args of
        [] \<Rightarrow> []
      | a # rest \<Rightarrow> (case own_value a ''key'' of VStr k \<Rightarrow> k | _ \<Rightarrow> []))"

definition Object_prototype_toString :: val where
  "Object_prototype_toString =
     VFun (UserFn 100) [(''name'', VStr ''toString''), (''length'', VNum (Finite 0))]"

definition sample_env :: env where
  "sample_env =
     \<lparr> call_user =
         (\<lambda>i args.
            if i = 2 then Inr (VStr (''mapped-'' @ arg_key args))
            else if i = 100 then Inr (VStr ''[object Undefined]'')
            else Inl (Thrown ExternalError (VStr ''unrecognized value''))),
       to_number = (\<lambda>v. NaN),
       to_string = (\<lambda>v. ''?''),
       parse_moment = (\<lambda>v. NaN),
       moment_document = (\<lambda>m. Inr (VObj Plain [])),
       fromDocument =
         (\<lambda>a. Inr (VObj (OtherInst ''Fake'')
                     [(''_id'', own_value (own_value a ''plain'') ''_id'')])),
       entity_id = (\<lambda>v. own_value v ''_id''),
       uuid = ''uuid-1'',
       store_set = (\<lambda>docs p doc opts. Inr (VUndefined, docs(p \<mapsto> doc))),
       inherited =
         (\<lambda>v k. case v of
                   VObj cls ps \<Rightarrow>
                     if k = ''toString'' then Object_prototype_toString
                     else if cls = OtherInst ''To'' \<and> k = ''string'' then lookup ps ''_string''
                     else VUndefined
                 | _ \<Rightarrow> VUndefined),
       proto_set =
         (\<lambda>v k x. case v of
                     VObj cls ps \<Rightarrow>
                       if cls = OtherInst ''To'' \<and> k = ''string''
                       then Some (None, cls, AList.update ''_string'' x ps)
                       else None
                   | _ \<Rightarrow> None) \<rparr>"

definition sample_repo :: repo where
  "sample_repo =
     \<lparr> r_path = ''/fakes'',
       r_docs = [''/fakes/a1'' \<mapsto> VObj Plain [(''_id'', VStr ''a1'')]] \<rparr>"

text \<open>
  An enumeration class as the trait sees one: a function value with its \<open>name\<close>,
  the list \<open>enumValues\<close> of its members and the lookup \<open>of\<close>.
\<close>

definition sample_enum :: val where
  "sample_enum =
     VFun (UserFn 0)
       [(''name'', VStr ''DayOfWeek''), (''length'', VNum (Finite 0)),
        (''enumValues'',
           VArr [VObj (EnumInst ''DayOfWeek'')
                   [(''name'', VStr ''SUNDAY''), (''ordinal'', VNum (Finite 0))],
                 VObj (EnumInst ''DayOfWeek'')
                   [(''name'', VStr ''MONDAY''), (''ordinal'', VNum (Finite 1))]]),
        (''of'', VFun (UserFn 1) [(''name'', VStr ''of''), (''length'', VNum (Finite 1))])]"

text \<open>A converter function of a caller, with the name and arity the platform gives it.\<close>

definition sample_converter :: val where
  "sample_converter =
     VFun (UserFn 2) [(''name'', VStr ''mappers''), (''length'', VNum (Finite 1))]"

section \<open>The property mapper, called on a key list\<close>

text \<open>
  \<open>_mapProps\<close> called with a list of keys, a source object, a destination object and
  both prefixes, on a repository whose converter cache is the first component of the
  state.
\<close>

definition mapKeys ::
  "env \<Rightarrow> obj \<Rightarrow> string \<Rightarrow> string \<Rightarrow> val \<Rightarrow> string list \<Rightarrow> cache \<times> obj
     \<Rightarrow> error option \<times> cache \<times> obj" where
  "mapKeys e from_obj sp gp mappers ks st =
     mapProps e (fst st)
       \<lparr> arg_keys = KeyList ks, arg_from = Some from_obj, arg_to = Some (snd st),
         arg_setterPrefix = Some sp, arg_getterPrefix = Some gp, arg_mappers = mappers \<rparr>"

text \<open>
  The three kinds of converter the specification names, and when a resolved converter
  is one of them: the enumeration converter of a class wraps the class's lookup
  \<open>of\<close>, the identity converter wraps the identity function, and a caller's function
  is used as it is.
\<close>

datatype converter_kind = EnumerationConverter val | FunctionConverter val | IdentityConverter

definition implements :: "env \<Rightarrow> mapper \<Rightarrow> converter_kind \<Rightarrow> bool" where
  "implements e m k =
     (case k of
        EnumerationConverter en \<Rightarrow> m = Wrapped (get_prop e en ''of'')
      | FunctionConverter f \<Rightarrow> m = Direct f
      | IdentityConverter \<Rightarrow> m = Wrapped identity_fn)"

text \<open>
  The resolution order in the specification's words (C2): (a) the entry of a mapping
  for the key, or the whole converters argument, exposes a list of enumeration values:
  the enumeration converter of that class; (b) otherwise the entry or the whole
  argument is a function: that function; (c) otherwise the identity converter. An
  entry of a mapping is a field the mapping holds itself.
\<close>

definition specified_converter :: "env \<Rightarrow> val \<Rightarrow> string \<Rightarrow> converter_kind" where
  "specified_converter e converters key =
     (let entry = (case converters of VObj p ps \<Rightarrow> lookup ps key | _ \<Rightarrow> VUndefined)
      in if looks_like_enum e entry then EnumerationConverter entry
         else if looks_like_enum e converters then EnumerationConverter converters
         else if typeof entry = TFunction then FunctionConverter entry
         else if typeof converters = TFunction then FunctionConverter converters
         else IdentityConverter)"

section \<open>Growing arrays: properties\<close>

lemma largest_length_Cons:
  "largest_length (x # xs) = max (olen x) (largest_length xs)"
  by (cases x) (simp_all add: largest_length_def olen_def)

lemma olen_largest_step: "olen (largest_step acc x) = max (olen acc) (olen x)"
  by (cases acc; cases x) (simp_all add: largest_step_def olen_def)

lemma olen_foldl_largest:
  "olen (foldl largest_step acc xs) = max (olen acc) (largest_length xs)"
proof (induction xs arbitrary: acc)
  case Nil
  show ?case by (simp add: largest_length_def)
next
  case (Cons x xs)
  show ?case by (simp add: Cons.IH olen_largest_step largest_length_Cons max.assoc)
qed

lemma olen_getLargest: "olen (getLargestArrayAmong arrays) = largest_length arrays"
  using olen_foldl_largest[of None arrays] by (simp add: getLargestArrayAmong_def olen_def)

lemma length_le_largest:
  "Some a \<in> set arrays \<Longrightarrow> length a \<le> largest_length arrays"
  by (induction arrays) (auto simp: largest_length_Cons olen_def)

lemma grow_one_eq:
  "length a \<le> len \<Longrightarrow> grow_one len a = a @ replicate (len - length a) VUndefined"
  by (simp add: grow_one_def)

lemma grow_result:
  "growAllArraysToLargestAmong arrays =
     map (map_option (\<lambda>a. a @ replicate (largest_length arrays - length a) VUndefined)) arrays"
proof (cases "largest_length arrays = 0")
  case True
  have z: "\<And>a. Some a \<in> set arrays \<Longrightarrow> a = []"
    using length_le_largest True by fastforce
  have "map (map_option (\<lambda>a. a @ replicate (largest_length arrays - length a) VUndefined)) arrays
          = map id arrays"
    apply (rule map_cong, simp)
    subgoal for x by (cases x) (auto simp: True dest: z)
    done
  moreover have "growAllArraysToLargestAmong arrays = arrays"
    using olen_getLargest[of arrays] True
    by (auto simp: growAllArraysToLargestAmong_def olen_def split: option.splits)
  ultimately show ?thesis by simp
next
  case False
  then obtain b where b: "getLargestArrayAmong arrays = Some b" "length b = largest_length arrays"
    using olen_getLargest[of arrays] by (auto simp: olen_def split: option.splits)
  from False have ne: "arrays \<noteq> []" by (auto simp: largest_length_def)
  have "growAllArraysToLargestAmong arrays =
      map (\<lambda>it. case it of None \<Rightarrow> None | Some a \<Rightarrow> Some (grow_one (largest_length arrays) a)) arrays"
    using b False ne by (simp add: growAllArraysToLargestAmong_def)
  also have "\<dots> = map (map_option (\<lambda>a. a @ replicate (largest_length arrays - length a) VUndefined)) arrays"
    apply (rule map_cong, simp)
    subgoal for x by (cases x) (auto simp: grow_one_eq length_le_largest)
    done
  finally show ?thesis .
qed

text \<open>
  C8. For every collection of arrays (some of which may be absent), after
  \<open>_growAllArraysToLargestAmong\<close> every array that is present has the largest length
  among them: it keeps each of its elements at its index, is never cut, and holds
  \<open>undefined\<close> at every index from its original length on. An absent argument stays
  absent.
\<close>

theorem grow_pads_to_largest:
  "length (growAllArraysToLargestAmong arrays) = length arrays \<and>
   (\<forall>i < length arrays.
      (arrays ! i = None \<longrightarrow> growAllArraysToLargestAmong arrays ! i = None) \<and>
      (\<forall>a. arrays ! i = Some a \<longrightarrow>
         (\<exists>b. growAllArraysToLargestAmong arrays ! i = Some b \<and>
              length b = largest_length arrays \<and>
              length a \<le> length b \<and>
              take (length a) b = a \<and>
              (\<forall>j. length a \<le> j \<and> j < length b \<longrightarrow> b ! j = VUndefined))))"
proof -
  have "length a \<le> largest_length arrays" if "i < length arrays" "arrays ! i = Some a" for i a
    using that length_le_largest[of a arrays] nth_mem[of i arrays] by simp
  then show ?thesis
    by (auto simp: grow_result nth_append)
qed

theorem grow_pads_to_largest_witness:
  "growAllArraysToLargestAmong
     [Some [VNum (Finite 1)], None, Some [VNum (Finite 1), VNum (Finite 2)]]
   = [Some [VNum (Finite 1), VUndefined], None, Some [VNum (Finite 1), VNum (Finite 2)]]"
  using grow_pads_to_largest[of "[Some [VNum (Finite 1)], None, Some [VNum (Finite 1), VNum (Finite 2)]]"]
  by (simp add: growAllArraysToLargestAmong_def getLargestArrayAmong_def largest_step_def grow_one_def)

section \<open>The time normalizer: properties\<close>

lemma Timestamp_new_valid:
  "0 \<le> b \<Longrightarrow> b \<le> 999999999 \<Longrightarrow>
   Timestamp_new (VNum (Finite a)) (VNum (Finite b)) = Inr (VTimestamp a b)"
  by (simp add: Timestamp_new_def)

lemma fromMillis_Finite:
  "Timestamp_fromMillis e (VNum (Finite ms)) = Inr (timestamp_of ms)"
proof -
  have a: "ms - ms div 1000 * 1000 = ms mod 1000"
    by (simp add: minus_div_mult_eq_mod)
  have b: "0 \<le> ms mod 1000" "ms mod 1000 \<le> 999" by simp_all
  have c: "0 \<le> ms mod 1000 * 1000000" "ms mod 1000 * 1000000 \<le> 999999999"
    using b by linarith+
  have "Timestamp_fromMillis e (VNum (Finite ms)) =
        Timestamp_new (VNum (Finite (ms div 1000)))
          (VNum (Finite ((ms - ms div 1000 * 1000) * 1000000)))"
    unfolding Timestamp_fromMillis_def Let_def by simp
  also have "\<dots> = Timestamp_new (VNum (Finite (ms div 1000))) (VNum (Finite (ms mod 1000 * 1000000)))"
    unfolding a ..
  also have "\<dots> = Inr (VTimestamp (ms div 1000) (ms mod 1000 * 1000000))"
    by (rule Timestamp_new_valid[OF c])
  finally show ?thesis unfolding timestamp_of_def .
qed

lemma toMillis_timestamp_of:
  "Timestamp_toMillis (ms div 1000) (ms mod 1000 * 1000000) = ms"
  by (simp add: Timestamp_toMillis_def)

lemma toTimestamp_instant:
  "toTimestamp e (VMoment (Finite ms)) = Inr (timestamp_of ms)"
  by (simp add: toTimestamp_def fromMillis_Finite)

lemma toMoment_timestamp:
  "toMoment e (VTimestamp s n) = Inr (VMoment (Finite (Timestamp_toMillis s n)))"
  by (simp add: toMoment_def isTimestampLike_def moment_utc_def Let_def)

lemma toMoment_not_timestamp_shaped:
  assumes "\<not> isTimestampLike e v False" and "truthy v"
      and "\<forall>s n. v \<noteq> VTimestamp s n"
  shows "toMoment e v =
           (if moment_utc e v = NaN then Inl (Thrown IllegalArgumentError v)
            else Inr (VMoment (moment_utc e v)))"
  using assms by (cases v) (simp_all add: toMoment_def Let_def)

lemma toTimestamp_timestamp:
  "toTimestamp e (VTimestamp s n) = Inr (timestamp_of (Timestamp_toMillis s n))"
  by (simp add: toTimestamp_def fromMillis_Finite)

text \<open>
  C3. For every Instant \<open>t\<close> (a valid moment, given by its epoch milliseconds),
  \<open>_toTimestamp\<close> returns the storage timestamp of \<open>t\<close>, and \<open>_toMoment\<close> of that
  timestamp returns \<open>t\<close>: the round trip loses nothing at millisecond granularity.
\<close>

theorem toInstant_toStorageTimestamp_roundtrip:
  "toTimestamp e (VMoment (Finite ms)) = Inr (timestamp_of ms) \<and>
   toMoment e (timestamp_of ms) = Inr (VMoment (Finite ms))"
  by (simp add: toTimestamp_instant timestamp_of_def toMoment_timestamp toMillis_timestamp_of)

theorem toInstant_toStorageTimestamp_roundtrip_witness:
  "toTimestamp sample_env (VMoment (Finite 1577836800123)) = Inr (VTimestamp 1577836800 123000000) \<and>
   toMoment sample_env (VTimestamp 1577836800 123000000) = Inr (VMoment (Finite 1577836800123))"
  using toInstant_toStorageTimestamp_roundtrip[of sample_env 1577836800123]
  by (simp add: timestamp_of_def)

text \<open>
  C4, as stated: \<open>_toTimestamp\<close> returns a storage timestamp unchanged, its nanoseconds
  below the millisecond included. It does not: the timestamp of 0 seconds and 1
  nanosecond comes back with 0 nanoseconds.
\<close>

theorem toStorageTimestamp_passthrough_counterexample:
  "toTimestamp sample_env (VTimestamp 0 1) = Inr (VTimestamp 0 0) \<and>
   toTimestamp sample_env (VTimestamp 0 1) \<noteq> Inr (VTimestamp 0 1)"
  by (simp add: toTimestamp_timestamp timestamp_of_def Timestamp_toMillis_def)

text \<open>
  C4, amended. For every valid storage timestamp (nanoseconds within one second),
  \<open>_toTimestamp\<close> returns the timestamp rebuilt from its epoch milliseconds: the
  same seconds, and the nanoseconds cut down to a whole number of milliseconds. The
  result equals the input exactly when the input has no nanoseconds below the
  millisecond.
\<close>

theorem toStorageTimestamp_of_timestamp:
  assumes "0 \<le> n" and "n \<le> 999999999"
  shows "toTimestamp e (VTimestamp s n) = Inr (VTimestamp s (n - n mod 1000000)) \<and>
         (toTimestamp e (VTimestamp s n) = Inr (VTimestamp s n) \<longleftrightarrow> n mod 1000000 = 0)"
proof -
  have q: "0 \<le> n div 1000000" "n div 1000000 \<le> 999" using assms by simp_all
  have d: "(s * 1000 + n div 1000000) div 1000 = s"
    using q by (simp add: div_pos_pos_trivial)
  have m: "(s * 1000 + n div 1000000) mod 1000 = n div 1000000"
    using q by (simp add: mod_pos_pos_trivial)
  have r: "n div 1000000 * 1000000 = n - n mod 1000000"
    by (simp add: minus_mod_eq_div_mult)
  have "toTimestamp e (VTimestamp s n) = Inr (timestamp_of (s * 1000 + n div 1000000))"
    unfolding toTimestamp_timestamp Timestamp_toMillis_def ..
  also have "\<dots> = Inr (VTimestamp s (n div 1000000 * 1000000))"
    unfolding timestamp_of_def d m ..
  finally have "toTimestamp e (VTimestamp s n) = Inr (VTimestamp s (n - n mod 1000000))"
    unfolding r .
  then show ?thesis by auto
qed

theorem toStorageTimestamp_of_timestamp_witness:
  "toTimestamp sample_env (VTimestamp 5 123456789) = Inr (VTimestamp 5 123000000) \<and>
   toTimestamp sample_env (VTimestamp 5 123456789) \<noteq> Inr (VTimestamp 5 123456789)"
proof -
  have h1: "(0::int) \<le> 123456789" by simp
  have h2: "(123456789::int) \<le> 999999999" by simp
  show ?thesis
    using toStorageTimestamp_of_timestamp[OF h1 h2, of sample_env 5] by simp
qed

text \<open>
  C5, as stated: \<open>_toMoment\<close> of the plain object with the fields \<open>seconds\<close> and
  \<open>nanoseconds\<close> gives what the storage timestamp built from the two numbers
  gives. It does not: \<open>_isTimestampLike\<close> tests the fields \<open>_seconds\<close> and
  \<open>_nanoseconds\<close>, so the object is not taken for a timestamp and goes to the date
  parser as it is (here the parser finds it invalid), while the timestamp of 12 seconds
  and 345000000 nanoseconds gives the Instant 12345.
\<close>

theorem toInstant_seconds_nanoseconds_counterexample:
  "\<not> isTimestampLike sample_env
       (VObj Plain [(''seconds'', VNum (Finite 12)), (''nanoseconds'', VNum (Finite 345000000))])
       False \<and>
   toMoment sample_env
     (VObj Plain [(''seconds'', VNum (Finite 12)), (''nanoseconds'', VNum (Finite 345000000))]) =
     Inl (Thrown errors_IllegalArgumentError
            (VObj Plain [(''seconds'', VNum (Finite 12)),
                         (''nanoseconds'', VNum (Finite 345000000))])) \<and>
   (case Timestamp_new (VNum (Finite 12)) (VNum (Finite 345000000)) of
      Inl x \<Rightarrow> Inl x
    | Inr ts \<Rightarrow> toMoment sample_env ts) = Inr (VMoment (Finite 12345))"
  by (simp add: toMoment_def isTimestampLike_def opt_get_def get_prop_def moment_utc_def
        sample_env_def Timestamp_new_def Timestamp_toMillis_def IllegalArgumentError_def Let_def)

text \<open>
  C5, amended. For every pair of numbers \<open>s\<close> and \<open>n\<close>, \<open>_toMoment\<close> of the plain
  object \<open>{_seconds: s, _nanoseconds: n}\<close> is what constructing the storage timestamp
  from \<open>(s, n)\<close> and then applying \<open>_toMoment\<close> gives, the constructor's error
  included.
\<close>

theorem toInstant_timestamp_shaped_object:
  "toMoment e (VObj Plain [(''_seconds'', VNum s), (''_nanoseconds'', VNum n)]) =
     (case Timestamp_new (VNum s) (VNum n) of Inl x \<Rightarrow> Inl x | Inr ts \<Rightarrow> toMoment e ts)"
  by (cases "Timestamp_new (VNum s) (VNum n)")
     (auto simp: toMoment_def isTimestampLike_def opt_get_def get_prop_def
           fromTimestampDocument_def Timestamp_new_def moment_utc_def Let_def
           split: number.splits if_splits)

theorem toInstant_timestamp_shaped_object_witness:
  "toMoment sample_env
     (VObj Plain [(''_seconds'', VNum (Finite 12)), (''_nanoseconds'', VNum (Finite 345000000))]) =
     Inr (VMoment (Finite 12345)) \<and>
   Timestamp_new (VNum (Finite 12)) (VNum (Finite 345000000)) = Inr (VTimestamp 12 345000000) \<and>
   toMoment sample_env (VTimestamp 12 345000000) = Inr (VMoment (Finite 12345))"
  using toInstant_timestamp_shaped_object[of sample_env "Finite 12" "Finite 345000000"]
  by (simp add: Timestamp_new_def toMoment_timestamp Timestamp_toMillis_def)

section \<open>The document converter: properties\<close>

lemma clone_instant:
  "cloneDeepWith (toTreeCustomizer e) False (instant_field t) =
     Inr (case t of None \<Rightarrow> VUndefined | Some ms \<Rightarrow> timestamp_of ms)"
  by (cases t) (simp_all add: instant_field_def toTreeCustomizer_def fromMillis_Finite timestamp_of_def)

lemma customizer_period:
  "toTreeCustomizer e (VObj (PeriodInst variant) ps) = Inr VUndefined"
  by (simp add: toTreeCustomizer_def)

lemma toTree_Period:
  "toTree e (Period variant b en) =
     Inr (VObj (PeriodInst variant)
            [(''_begin'', case b of None \<Rightarrow> VUndefined | Some ms \<Rightarrow> timestamp_of ms),
             (''_end'', case en of None \<Rightarrow> VUndefined | Some ms \<Rightarrow> timestamp_of ms)])"
  unfolding toTree_def Period_def
  by (subst cloneDeepWith.simps)
     (simp add: customizer_period clone_instant del: cloneDeepWith.simps)

lemma toTimestamp_timestamp_of:
  "toTimestamp e (timestamp_of ms) = Inr (timestamp_of ms)"
  by (simp add: timestamp_of_def toTimestamp_timestamp toMillis_timestamp_of)

lemma truthy_timestamp_of: "truthy (timestamp_of ms)"
  by (simp add: timestamp_of_def)

lemma toDocument_Period_eq:
  "toDocument e (Period variant b en) =
     Inr (VObj Plain
            ((''_type'', VStr variant) #
             (case b of None \<Rightarrow> [] | Some ms \<Rightarrow> [(''_begin'', timestamp_of ms)]) @
             (case en of None \<Rightarrow> [] | Some ms \<Rightarrow> [(''_end'', timestamp_of ms)])))"
  by (cases b; cases en)
     (simp_all add: toDocument_def toTree_Period toPeriodDocument_def get_prop_def and_then_def
        truthy_timestamp_of toTimestamp_timestamp_of Let_def)

text \<open>
  C6, as stated: the document of a Period has the keys \<open>type\<close>, \<open>begin\<close> and
  \<open>end\<close>. It does not: \<open>_toPeriodDocument\<close> writes \<open>_type\<close>, \<open>_begin\<close> and
  \<open>_end\<close>, and the document of a Period with nothing set, or with a begin only, has
  no field \<open>type\<close> or \<open>begin\<close>.
\<close>

theorem toDocument_Period_keys_counterexample:
  "toDocument sample_env (Period ''Period'' None None) =
     Inr (VObj Plain [(''_type'', VStr ''Period'')]) \<and>
   toDocument sample_env (Period ''Period'' None None) \<noteq>
     Inr (VObj Plain [(''type'', VStr ''Period'')]) \<and>
   toDocument sample_env (Period ''Period'' (Some 1577836800000) None) =
     Inr (VObj Plain [(''_type'', VStr ''Period''), (''_begin'', VTimestamp 1577836800 0)]) \<and>
   own_prop (VObj Plain [(''_type'', VStr ''Period''), (''_begin'', VTimestamp 1577836800 0)])
     ''type'' = None \<and>
   own_prop (VObj Plain [(''_type'', VStr ''Period''), (''_begin'', VTimestamp 1577836800 0)])
     ''begin'' = None"
  by (simp add: toDocument_Period_eq timestamp_of_def)

text \<open>
  C6, amended. For every Period value, of whatever variant, \<open>_toDocument\<close> gives the
  plain object \<open>{ _type: <variant-name>, _begin?: <timestamp>, _end?: <timestamp> }\<close>:
  \<open>_type\<close> holds the variant name, and \<open>_begin\<close> and \<open>_end\<close> hold the storage
  timestamp of the Instant where it is set; a key whose Instant is not set is left
  out, so a Period with only a begin has no \<open>_end\<close> key and a Period with neither
  has \<open>_type\<close> alone.
\<close>

theorem toDocument_Period:
  "toDocument e (Period variant b en) =
     Inr (VObj Plain
            ((''_type'', VStr variant) #
             (case b of None \<Rightarrow> [] | Some ms \<Rightarrow> [(''_begin'', timestamp_of ms)]) @
             (case en of None \<Rightarrow> [] | Some ms \<Rightarrow> [(''_end'', timestamp_of ms)])))"
  by (rule toDocument_Period_eq)

theorem toDocument_Period_witness:
  "toDocument sample_env (Period ''Period'' (Some 1577836800000) None) =
     Inr (VObj Plain [(''_type'', VStr ''Period''), (''_begin'', VTimestamp 1577836800 0)]) \<and>
   toDocument sample_env (Period ''DatePeriod'' None None) =
     Inr (VObj Plain [(''_type'', VStr ''DatePeriod'')])"
  using toDocument_Period[of sample_env "''Period''" "Some 1577836800000" None]
        toDocument_Period[of sample_env "''DatePeriod''" None None]
  by (simp add: timestamp_of_def)

section \<open>Repository operations: properties\<close>

text \<open>
  C10. When \<open>findById\<close> returns a reconstructed entity (a truthy value), \<open>getById\<close>
  completes and returns \<open>undefined\<close>, not the entity. \<open>getById\<close> throws its
  not-found error, without \<open>findById\<close> having thrown it, exactly when \<open>findById\<close>
  returns nothing (a falsy value); an error of \<open>findById\<close> itself passes through.
  In terms of the store: a stored document that \<open>_fromDocument\<close> rebuilds makes
  \<open>getById\<close> return \<open>undefined\<close>, and a falsy identifier or a missing document
  makes it throw not-found.
\<close>

theorem getById_returns_nothing:
  "(\<forall>entity. findById e r i = Inr entity \<and> truthy entity \<longrightarrow> getById e r i = Inr VUndefined) \<and>
   ((\<exists>v. findById e r i = Inr v \<and> \<not> truthy v) \<longleftrightarrow>
      (getById e r i = Inl (Thrown ObjectNotFoundError (VStr (docpath e r [i]))) \<and>
       findById e r i \<noteq> Inl (Thrown ObjectNotFoundError (VStr (docpath e r [i]))))) \<and>
   (\<forall>x. findById e r i = Inl x \<longrightarrow> getById e r i = Inl x) \<and>
   (\<forall>plain entity.
      truthy i \<and> r_docs r (docpath e r [i]) = Some plain \<and>
      fromDocument e (VObj Plain [(''plain'', plain), (''setterPrefix'', VStr ''_''),
                                  (''getterPrefix'', VStr ''_'')]) = Inr entity \<and>
      truthy entity \<longrightarrow>
      findById e r i = Inr entity \<and> getById e r i = Inr VUndefined) \<and>
   (\<not> truthy i \<or> r_docs r (docpath e r [i]) = None \<longrightarrow>
      getById e r i = Inl (Thrown ObjectNotFoundError (VStr (docpath e r [i]))))"
  by (cases "findById e r i")
     (auto simp: getById_def findById_def tryAsync_def translateError_def
           split: if_splits option.splits)

theorem getById_returns_nothing_witness:
  "findById sample_env sample_repo (VStr ''a1'') =
     Inr (VObj (OtherInst ''Fake'') [(''_id'', VStr ''a1'')]) \<and>
   getById sample_env sample_repo (VStr ''a1'') = Inr VUndefined \<and>
   findById sample_env sample_repo (VStr ''zz'') = Inr (VBool False) \<and>
   getById sample_env sample_repo (VStr ''zz'') =
     Inl (Thrown errors_ObjectNotFoundError (VStr ''/fakes/zz''))"
  using getById_returns_nothing[of sample_env sample_repo "VStr ''a1''"]
        getById_returns_nothing[of sample_env sample_repo "VStr ''zz''"]
  by (simp add: getById_def findById_def tryAsync_def translateError_def sample_env_def
        sample_repo_def docpath_def join_item_def own_value_def ObjectNotFoundError_def)

text \<open>
  C9. Inserting an entity whose identifier already has a document throws, but what is
  thrown is of the not-found class: the module binds the name \<open>ObjectExistsError\<close> to
  the support library's \<open>ObjectNotFoundError\<close>, so the error of \<open>insert\<close> is of the
  same kind as the not-found error of \<open>getById\<close>, and not of the library's
  already-exists class.
\<close>

theorem insert_existing_throws_not_found:
  "fst (insert sample_env sample_repo (OtherInst ''Fake'', [(''_id'', VStr ''a1'')]) VUndefined) =
     Inl (Thrown errors_ObjectNotFoundError (VStr ''Fake@a1'')) \<and>
   getById sample_env sample_repo (VStr ''zz'') =
     Inl (Thrown errors_ObjectNotFoundError (VStr ''/fakes/zz'')) \<and>
   ObjectExistsError = ObjectNotFoundError \<and>
   ObjectExistsError \<noteq> errors_ObjectExistsError"
  by (simp add: insert_def getById_def findById_def tryAsync_def translateError_def sample_env_def
        sample_repo_def docpath_def join_item_def own_value_def ObjectNotFoundError_def
        ObjectExistsError_def obj_val_def template_str_def)

section \<open>The property mapper: properties\<close>

lemma mapKeys_reduce:
  "mapKeys e from_obj sp gp mappers ks st =
     reduce_keys (mapProps_step e from_obj sp gp mappers) ks st"
  by (simp add: mapKeys_def mapProps_def)

lemma reduce_keys_append:
  "reduce_keys f (xs @ ys) st =
     (case reduce_keys f xs st of
        (Some err, st1) \<Rightarrow> (Some err, st1)
      | (None, st1) \<Rightarrow> reduce_keys f ys st1)"
proof (induction xs arbitrary: st)
  case Nil
  show ?case by simp
next
  case (Cons x xs)
  obtain r st1 where "f x st = (r, st1)" by (cases "f x st")
  then show ?case by (cases r) (simp_all add: Cons.IH)
qed

lemma reduce_keys_single:
  "reduce_keys f [k] st = f k st"
proof -
  obtain r st1 where "f k st = (r, st1)" by (cases "f k st")
  then show ?thesis by (cases r) simp_all
qed

lemma mapKeys_single:
  "mapKeys e from_obj sp gp mappers [k] st = mapProps_step e from_obj sp gp mappers k st"
  unfolding mapKeys_reduce by (rule reduce_keys_single)

lemma getMapper_named:
  "name \<noteq> [] \<Longrightarrow> map_of c name = None \<or> map_of c name = Some f \<Longrightarrow>
   \<exists>c1. getMapper e c f name = (c1, f)"
  by (auto simp: getMapper_def)

lemma getMapper_keeps_other:
  "getMapper e c f name = (c1, g) \<Longrightarrow> name \<noteq> [] \<Longrightarrow> k \<noteq> name \<Longrightarrow> map_of c1 k = map_of c k"
  by (auto simp: getMapper_def update_conv' split: option.splits)

lemma getMapper_same:
  "getMapper e c f name = (c1, g) \<Longrightarrow> name \<noteq> [] \<Longrightarrow>
   map_of c1 name = Some g \<and> (map_of c name = None \<longrightarrow> g = f) \<and>
   (\<forall>h. map_of c name = Some h \<longrightarrow> g = h)"
  by (auto simp: getMapper_def update_conv' split: option.splits)

text \<open>
  Resolving a converter keeps the cache's \<open>noop\<close> entry the identity: from the empty
  cache of a new repository on, \<open>_mapProps\<close> never puts anything else there.
\<close>

lemma resolve_keeps_noop:
  assumes "map_of c ''noop'' = None \<or> map_of c ''noop'' = Some identity_fn"
  shows "map_of (fst (resolve e c mappers key)) ''noop'' = None \<or>
         map_of (fst (resolve e c mappers key)) ''noop'' = Some identity_fn"
proof -
  obtain c1 g where n: "noOpMapper e c = (c1, g)" by (cases "noOpMapper e c")
  obtain c2 h where m: "toEnumMapper e c (candidate e mappers key) = (c2, h)"
    by (cases "toEnumMapper e c (candidate e mappers key)")
  have a: "map_of c1 ''noop'' = Some identity_fn"
    using getMapper_same[of e c identity_fn "''noop''" c1 g] n assms
    by (auto simp: noOpMapper_def)
  have b: "map_of c2 ''noop'' = map_of c ''noop''"
    using getMapper_keeps_other[of e c _ _ c2 h "''noop''"] m
    by (auto simp: toEnumMapper_def)
  show ?thesis
    using a b assms by (auto simp: resolve_def n m Let_def)
qed

lemma map_elems_identity: "map_elems e identity_fn w i xs = Inr xs"
  by (induction xs arbitrary: i) (simp_all add: call_def identity_fn_def)

lemma apply_wrapped_identity:
  "apply_wrapped e identity_fn k f gp = Inr (get_prop e f (gp @ k))"
proof (cases "get_prop e f (gp @ k)")
  case (VArr xs)
  then show ?thesis
    by (simp add: apply_wrapped_def Let_def map_elems_identity) (simp add: identity_fn_def)
qed (simp_all add: apply_wrapped_def Let_def call_def identity_fn_def)

lemma resolve_function:
  assumes "mappers = VFun (UserFn n) ps" and "\<not> truthy (get_prop e mappers k)"
      and "\<not> looks_like_enum e mappers"
  shows "resolve e c mappers k = (c, Direct mappers, VUndefined)"
  using assms by (simp add: resolve_def candidate_def js_or_def js_and_def Let_def)

lemma resolve_absent:
  assumes "map_of c ''noop'' = None \<or> map_of c ''noop'' = Some identity_fn"
  shows "\<exists>c1. resolve e c VUndefined k = (c1, Wrapped identity_fn, VUndefined)"
proof -
  obtain c1 where "noOpMapper e c = (c1, identity_fn)"
    using getMapper_named[of "''noop''" c identity_fn e] assms by (auto simp: noOpMapper_def)
  then show ?thesis
    by (simp add: resolve_def candidate_def js_or_def js_and_def looks_like_enum_def
          opt_get_def Let_def)
qed

lemma step_with:
  assumes "resolve e c mappers k = (c1, m, en)"
  shows "mapProps_step e from_obj sp gp mappers k (c, t) =
           (case invoke e m k (obj_val from_obj) gp en (obj_val t) of
              Inl err \<Rightarrow> (Some err, c1, t)
            | Inr v \<Rightarrow> if v = VUndefined then (None, c1, t)
                      else (case assign e t (sp @ k) v of (r, t1) \<Rightarrow> (r, c1, t1)))"
  using assms by (simp add: mapProps_step_def split: sum.splits)

lemma assign_plain:
  assumes "map_of (snd t) f \<noteq> None \<or> proto_set e (obj_val t) f v = None"
  shows "assign e t f v = (None, fst t, AList.update f v (snd t))"
  using assms by (auto simp: assign_def split: option.splits)

lemma lookup_update_same: "lookup (AList.update f v ps) f = v"
  by (simp add: lookup_def update_conv')

lemma lookup_update_other: "g \<noteq> f \<Longrightarrow> lookup (AList.update f v ps) g = lookup ps g"
  by (simp add: lookup_def update_conv')

lemmas eval_defs =
  mapKeys_def mapProps_def mapProps_step_def resolve_def candidate_def js_or_def js_and_def
  looks_like_enum_def opt_get_def get_prop_def noOpMapper_def toEnumMapper_def getMapper_def
  invoke_def mapper_args_def apply_wrapped_def call_def identity_fn_def lookup_def assign_def
  obj_val_def own_value_def template_str_def index_of_key_def digit_of_def sample_env_def
  sample_converter_def Object_prototype_toString_def arg_key_def Let_def

text \<open>
  C1. For every key list, source object, destination object and prefixes, \<open>_mapProps\<close>
  works through the keys in order: no key leaves the destination as it is and returns
  it; the keys \<open>ks\<close> followed by \<open>k\<close> are the keys \<open>ks\<close> and then, unless one of
  them threw, the key \<open>k\<close> on the destination they leave. For one key the resolved
  converter is invoked: a closure of the converter cache on the key, the source object
  and the getter prefix, a caller's function on the argument object
  \<open>{ key, from, getterPrefix, enumeration, to }\<close>. An error of the converter is the
  error of the call; the result \<open>undefined\<close> leaves the destination untouched; any
  other result is assigned to the destination field named setter prefix + key. So a
  converter function given as the whole \<open>mappers\<close> argument decides the value stored
  by what it returns, and without \<open>mappers\<close> the source field itself is stored.
  The assignment stores the value under that name, every other field and the
  prototype staying as they are, when the destination has the field or its prototype
  chain has nothing for it; otherwise the destination is as its setter leaves it. The
  destination object is what the call returns.
\<close>

theorem mapProps_keys_in_order:
  "mapKeys e from_obj sp gp mappers [] (c, t) = (None, c, t) \<and>
   mapKeys e from_obj sp gp mappers (ks @ [k]) (c, t) =
     (case mapKeys e from_obj sp gp mappers ks (c, t) of
        (Some err, st) \<Rightarrow> (Some err, st)
      | (None, st) \<Rightarrow> mapKeys e from_obj sp gp mappers [k] st) \<and>
   (\<forall>c1 m en. resolve e c mappers k = (c1, m, en) \<longrightarrow>
      mapKeys e from_obj sp gp mappers [k] (c, t) =
        (case (case m of
                 Wrapped f \<Rightarrow> apply_wrapped e f k (obj_val from_obj) gp
               | Direct f \<Rightarrow>
                   call e f [mapper_args k (obj_val from_obj) gp en (obj_val t)]) of
           Inl err \<Rightarrow> (Some err, c1, t)
         | Inr v \<Rightarrow>
             if v = VUndefined then (None, c1, t)
             else (case assign e t (sp @ k) v of (r, t1) \<Rightarrow> (r, c1, t1)))) \<and>
   (\<forall>n ps. mappers = VFun (UserFn n) ps \<and> \<not> truthy (get_prop e mappers k) \<and>
           \<not> looks_like_enum e mappers \<longrightarrow>
      mapKeys e from_obj sp gp mappers [k] (c, t) =
        (case call_user e n [mapper_args k (obj_val from_obj) gp VUndefined (obj_val t)] of
           Inl err \<Rightarrow> (Some err, c, t)
         | Inr v \<Rightarrow>
             if v = VUndefined then (None, c, t)
             else (case assign e t (sp @ k) v of (r, t1) \<Rightarrow> (r, c, t1)))) \<and>
   (mappers = VUndefined \<and>
    (map_of c ''noop'' = None \<or> map_of c ''noop'' = Some identity_fn) \<longrightarrow>
      (\<exists>c1. mapKeys e from_obj sp gp mappers [k] (c, t) =
         (if get_prop e (obj_val from_obj) (gp @ k) = VUndefined then (None, c1, t)
          else (case assign e t (sp @ k) (get_prop e (obj_val from_obj) (gp @ k)) of
                  (r, t1) \<Rightarrow> (r, c1, t1))))) \<and>
   (\<forall>f v. map_of (snd t) f \<noteq> None \<or> proto_set e (obj_val t) f v = None \<longrightarrow>
      (\<exists>t1. assign e t f v = (None, t1) \<and> fst t1 = fst t \<and> lookup (snd t1) f = v \<and>
            (\<forall>g. g \<noteq> f \<longrightarrow> lookup (snd t1) g = lookup (snd t) g))) \<and>
   (\<forall>f v res. map_of (snd t) f = None \<and> proto_set e (obj_val t) f v = Some res \<longrightarrow>
      assign e t f v = res)"
proof (intro conjI allI impI)
  show "mapKeys e from_obj sp gp mappers [] (c, t) = (None, c, t)"
    by (simp add: mapKeys_reduce)
  show "mapKeys e from_obj sp gp mappers (ks @ [k]) (c, t) =
     (case mapKeys e from_obj sp gp mappers ks (c, t) of
        (Some err, st) \<Rightarrow> (Some err, st)
      | (None, st) \<Rightarrow> mapKeys e from_obj sp gp mappers [k] st)"
    unfolding mapKeys_reduce by (rule reduce_keys_append)
next
  fix c1 m en
  assume "resolve e c mappers k = (c1, m, en)"
  then show "mapKeys e from_obj sp gp mappers [k] (c, t) =
        (case (case m of
                 Wrapped f \<Rightarrow> apply_wrapped e f k (obj_val from_obj) gp
               | Direct f \<Rightarrow>
                   call e f [mapper_args k (obj_val from_obj) gp en (obj_val t)]) of
           Inl err \<Rightarrow> (Some err, c1, t)
         | Inr v \<Rightarrow>
             if v = VUndefined then (None, c1, t)
             else (case assign e t (sp @ k) v of (r, t1) \<Rightarrow> (r, c1, t1)))"
    by (simp add: mapKeys_single step_with invoke_def)
next
  fix n ps
  assume h: "mappers = VFun (UserFn n) ps \<and> \<not> truthy (get_prop e mappers k) \<and>
             \<not> looks_like_enum e mappers"
  then have h1: "mappers = VFun (UserFn n) ps" and h2: "\<not> truthy (get_prop e mappers k)"
    and h3: "\<not> looks_like_enum e mappers" by blast+
  have r: "resolve e c mappers k = (c, Direct mappers, VUndefined)"
    by (rule resolve_function[OF h1 h2 h3])
  show "mapKeys e from_obj sp gp mappers [k] (c, t) =
        (case call_user e n [mapper_args k (obj_val from_obj) gp VUndefined (obj_val t)] of
           Inl err \<Rightarrow> (Some err, c, t)
         | Inr v \<Rightarrow>
             if v = VUndefined then (None, c, t)
             else (case assign e t (sp @ k) v of (r, t1) \<Rightarrow> (r, c, t1)))"
    unfolding mapKeys_single step_with[OF r] by (simp add: invoke_def call_def h1)
next
  assume h: "mappers = VUndefined \<and>
             (map_of c ''noop'' = None \<or> map_of c ''noop'' = Some identity_fn)"
  then obtain c1 where r: "resolve e c mappers k = (c1, Wrapped identity_fn, VUndefined)"
    using resolve_absent[of c e k] by auto
  have "mapKeys e from_obj sp gp mappers [k] (c, t) =
         (if get_prop e (obj_val from_obj) (gp @ k) = VUndefined then (None, c1, t)
          else (case assign e t (sp @ k) (get_prop e (obj_val from_obj) (gp @ k)) of
                  (r, t1) \<Rightarrow> (r, c1, t1)))"
    by (simp add: mapKeys_single step_with[OF r] invoke_def apply_wrapped_identity)
  then show "\<exists>c1. mapKeys e from_obj sp gp mappers [k] (c, t) =
         (if get_prop e (obj_val from_obj) (gp @ k) = VUndefined then (None, c1, t)
          else (case assign e t (sp @ k) (get_prop e (obj_val from_obj) (gp @ k)) of
                  (r, t1) \<Rightarrow> (r, c1, t1)))"
    by blast
next
  fix f v
  assume "map_of (snd t) f \<noteq> None \<or> proto_set e (obj_val t) f v = None"
  then have "assign e t f v = (None, fst t, AList.update f v (snd t))"
    by (rule assign_plain)
  then show "\<exists>t1. assign e t f v = (None, t1) \<and> fst t1 = fst t \<and> lookup (snd t1) f = v \<and>
            (\<forall>g. g \<noteq> f \<longrightarrow> lookup (snd t1) g = lookup (snd t) g)"
    by (simp add: lookup_update_same lookup_update_other)
next
  fix f v res
  assume "map_of (snd t) f = None \<and> proto_set e (obj_val t) f v = Some res"
  then show "assign e t f v = res"
    by (simp add: assign_def)
qed

theorem mapProps_keys_in_order_witness:
  "mapKeys sample_env
      (Plain, [(''a'', VNum (Finite 1)), (''b'', VArr [VNum (Finite 2), VNum (Finite 3)])])
      ''_'' [] (VObj Plain [(''a'', sample_converter)]) [''a'', ''b'', ''c'']
      ([], (Plain, [(''x'', VNum (Finite 9))])) =
     (None, [(''noop'', identity_fn)],
      (Plain, [(''x'', VNum (Finite 9)), (''_a'', VStr ''mapped-a''),
               (''_b'', VArr [VNum (Finite 2), VNum (Finite 3)])])) \<and>
   mapKeys sample_env (Plain, [(''a'', VNum (Finite 1))]) ''_'' [] sample_converter [''a'']
      ([], (Plain, [])) =
     (None, [], (Plain, [(''_a'', VStr ''mapped-a'')])) \<and>
   mapKeys sample_env (Plain, [(''string'', VStr ''s'')]) [] [] VUndefined [''string'']
      ([], (OtherInst ''To'', [])) =
     (None, [(''noop'', identity_fn)], (OtherInst ''To'', [(''_string'', VStr ''s'')]))"
  using mapProps_keys_in_order[where e = sample_env
          and from_obj = "(Plain, [(''a'', VNum (Finite 1)), (''b'', VArr [VNum (Finite 2), VNum (Finite 3)])])"
          and sp = "''_''" and gp = "[]" and mappers = "VObj Plain [(''a'', sample_converter)]"
          and ks = "[''a'', ''b'']" and k = "''c''" and c = "[]"
          and t = "(Plain, [(''x'', VNum (Finite 9))])"]
  by (simp add: eval_defs)

text \<open>
  C7. For every key list, if the keys before position \<open>i\<close> are mapped without an
  error and the converter of the key at position \<open>i\<close> throws, the whole call throws
  that error, and the destination object is exactly as the keys before \<open>i\<close> left it:
  what they set stays set, and no key at or after \<open>i\<close> is set.
\<close>

theorem mapProps_converter_throws:
  assumes "i < length ks"
      and "mapKeys e from_obj sp gp mappers (take i ks) (c, t) = (None, ci, ti)"
      and "resolve e ci mappers (ks ! i) = (c1, m, en)"
      and "invoke e m (ks ! i) (obj_val from_obj) gp en (obj_val ti) = Inl err"
  shows "mapKeys e from_obj sp gp mappers ks (c, t) = (Some err, c1, ti)"
proof -
  let ?f = "mapProps_step e from_obj sp gp mappers"
  have ks: "ks = take i ks @ (ks ! i # drop (Suc i) ks)"
    using assms(1) by (simp add: id_take_nth_drop[symmetric])
  have step: "?f (ks ! i) (ci, ti) = (Some err, c1, ti)"
    using assms(3,4) by (simp add: mapProps_step_def)
  have "reduce_keys ?f ks (c, t) = reduce_keys ?f (take i ks @ (ks ! i # drop (Suc i) ks)) (c, t)"
    using ks by simp
  also have "\<dots> = reduce_keys ?f (ks ! i # drop (Suc i) ks) (ci, ti)"
    using assms(2) by (simp add: reduce_keys_append mapKeys_reduce)
  also have "\<dots> = (Some err, c1, ti)"
    using step by simp
  finally show ?thesis by (simp add: mapKeys_reduce)
qed

theorem mapProps_converter_throws_witness:
  "mapKeys sample_env
      (Plain, [(''a'', VNum (Finite 1)), (''b'', VNum (Finite 2)), (''c'', VNum (Finite 3))])
      [] [] (VObj Plain [(''b'', VFun (UserFn 0) [])]) [''a'', ''b'', ''c''] ([], (Plain, [])) =
     (Some (Thrown ExternalError (VStr ''unrecognized value'')), [(''noop'', identity_fn)],
      (Plain, [(''a'', VNum (Finite 1))]))"
proof -
  let ?from = "(Plain, [(''a'', VNum (Finite 1)), (''b'', VNum (Finite 2)), (''c'', VNum (Finite 3))])"
  let ?mappers = "VObj Plain [(''b'', VFun (UserFn 0) [])]"
  let ?ks = "[''a'', ''b'', ''c'']"
  have h1: "(1::nat) < length ?ks" by simp
  have h2: "mapKeys sample_env ?from [] [] ?mappers (take 1 ?ks) ([], (Plain, [])) =
              (None, [(''noop'', identity_fn)], (Plain, [(''a'', VNum (Finite 1))]))"
    by (simp add: eval_defs)
  have h3: "resolve sample_env [(''noop'', identity_fn)] ?mappers (?ks ! 1) =
              ([(''noop'', identity_fn)], Direct (VFun (UserFn 0) []), VUndefined)"
    by (simp add: eval_defs)
  have h4: "invoke sample_env (Direct (VFun (UserFn 0) [])) (?ks ! 1) (obj_val ?from) [] VUndefined
              (obj_val (Plain, [(''a'', VNum (Finite 1))])) =
              Inl (Thrown ExternalError (VStr ''unrecognized value''))"
    by (simp add: eval_defs)
  show ?thesis
    by (rule mapProps_converter_throws[OF h1 h2 h3 h4])
qed

text \<open>
  C2. The converter is not resolved in the stated order on every key, because
  \<open>mappers[key]\<close> is an ordinary property read. With an enumeration class as the
  whole \<open>mappers\<close> argument and the key \<open>name\<close>, the stated order gives the
  enumeration converter; the code reads the class's own \<open>name\<close>, a string, and uses
  the identity converter, so the field \<open>name\<close> is copied. With a converter function
  as the whole argument and the key \<open>name\<close>, the stated order gives the function;
  the code reads the function's \<open>name\<close> and uses the identity converter. With a
  mapping that has no entry \<open>toString\<close> and the key \<open>toString\<close>, the stated order
  gives the identity converter; the code reads the inherited \<open>toString\<close>, a
  function, and calls it as the converter.
\<close>

theorem mapProps_resolves_any_property:
  "specified_converter sample_env sample_enum ''name'' = EnumerationConverter sample_enum \<and>
   resolve sample_env [] sample_enum ''name'' =
     ([(''noop'', identity_fn)], Wrapped identity_fn, VUndefined) \<and>
   \<not> implements sample_env (Wrapped identity_fn) (EnumerationConverter sample_enum) \<and>
   mapKeys sample_env (Plain, [(''name'', VStr ''Alice'')]) [] [] sample_enum [''name'']
        ([], (Plain, [])) =
     (None, [(''noop'', identity_fn)], (Plain, [(''name'', VStr ''Alice'')])) \<and>
   specified_converter sample_env sample_converter ''name'' = FunctionConverter sample_converter \<and>
   resolve sample_env [] sample_converter ''name'' =
     ([(''noop'', identity_fn)], Wrapped identity_fn, VUndefined) \<and>
   specified_converter sample_env (VObj Plain [(''b'', sample_converter)]) ''toString'' =
     IdentityConverter \<and>
   resolve sample_env [] (VObj Plain [(''b'', sample_converter)]) ''toString'' =
     ([], Direct Object_prototype_toString, VUndefined) \<and>
   mapKeys sample_env (Plain, [(''a'', VNum (Finite 1))]) [] []
        (VObj Plain [(''b'', sample_converter)]) [''toString''] ([], (Plain, [])) =
     (None, [], (Plain, [(''toString'', VStr ''[object Undefined]'')]))"
  by (simp add: eval_defs sample_enum_def specified_converter_def implements_def)

end
